theory Spec2Isabelle
  imports Main
begin

section \<open>simple\_sqs\_client: the data model\<close>

text \<open>
  The embedding follows \<^verbatim>\<open>src/simple_sqs_client/client.py\<close> and
  \<^verbatim>\<open>src/simple_sqs_client/builder.py\<close>. Python objects live in an explicit store,
  the class attribute \<^verbatim>\<open>SQSClient._instances\<close> is a list of addresses, exceptions are
  values of the type \<open>exn\<close> returned on the left of a sum, and the boto3 transport is an
  oracle: the outcome of every call to it is an input of the model.

  A Python string argument that may be \<^verbatim>\<open>None\<close> is a \<open>string option\<close>.
\<close>

type_synonym pystr = "string option"

text \<open>The exceptions the two modules raise or let through.\<close>

datatype exn =
    WaiterError string
  | HTTPClientError string
  | KeyError string
  | ValueError string
  | AttributeError string
  | ClientError string
  | OtherException string

fun is_WaiterError :: "exn \<Rightarrow> bool" where
  "is_WaiterError (WaiterError m) = True"
| "is_WaiterError e = False"

text \<open>
  \<^verbatim>\<open>str(e)\<close>: the message of an exception. An \<open>AttributeError\<close> carries the name
  of the attribute that is not there, a \<open>KeyError\<close> the key, which \<^verbatim>\<open>str\<close> shows in
  quotes.
\<close>

fun exn_str :: "exn \<Rightarrow> string" where
  "exn_str (WaiterError m) = m"
| "exn_str (HTTPClientError m) = m"
| "exn_str (KeyError k) = [CHR 0x27] @ k @ [CHR 0x27]"
| "exn_str (ValueError m) = m"
| "exn_str (AttributeError a) =
     [CHR 0x27] @ ''SQSClient'' @ [CHR 0x27] @ '' object has no attribute ''
       @ [CHR 0x27] @ a @ [CHR 0x27]"
| "exn_str (ClientError m) = m"
| "exn_str (OtherException m) = m"

text \<open>What a call into the transport does: it returns a value or raises.\<close>

datatype 'a outcome = Returns 'a | Raises exn

text \<open>
  \<^verbatim>\<open>HTTPClientError\<close> is botocore's class (the library is imported by
  \<^verbatim>\<open>client.py\<close>, it is not part of the repository). Its constructor formats the
  class's message \<^verbatim>\<open>'An HTTP Client raised an unhandled exception: {error}'\<close> with
  the keyword arguments it is given, so building the exception without an
  \<^verbatim>\<open>error\<close> keyword raises \<^verbatim>\<open>KeyError('error')\<close> instead of returning an object.
\<close>

definition HTTPClientError_new :: "(string \<rightharpoonup> string) \<Rightarrow> exn outcome" where
  "HTTPClientError_new kwargs =
     (case kwargs ''error'' of
        None \<Rightarrow> Raises (KeyError ''error'')
      | Some err \<Rightarrow>
          Returns (HTTPClientError (''An HTTP Client raised an unhandled exception: '' @ err)))"

text \<open>
  \<^verbatim>\<open>raise C\<close> with a class \<open>C\<close>: Python builds \<^verbatim>\<open>C()\<close> first. The exception that
  leaves the statement is the object built, or the one its construction raised.
\<close>

definition raise_class :: "exn outcome \<Rightarrow> exn" where
  "raise_class construction = (case construction of Returns e \<Rightarrow> e | Raises e \<Rightarrow> e)"

record message =
  Body :: string
  ReceiptHandle :: string
  MessageAttributes :: "(string \<times> string) list"

text \<open>
  The response of \<^verbatim>\<open>receive_message\<close> is a dictionary; the only key the client reads
  is \<^verbatim>\<open>'Messages'\<close>, which is absent when the poll found nothing.
\<close>

type_synonym response = "string \<rightharpoonup> message list"

text \<open>
  An \<^verbatim>\<open>SQSClient\<close> object. The transport handle \<open>sqs\<close> is the number of the
  \<^verbatim>\<open>boto3.client\<close> call that made it; it is \<open>None\<close> while the attribute is not set
  (inside \<^verbatim>\<open>__init__\<close>, before \<^verbatim>\<open>_init_client\<close> has run).
\<close>

record sqs_client =
  region_name :: pystr
  aws_access_key_id :: pystr
  aws_secret_access_key :: pystr
  queue_url :: pystr
  sqs :: "nat option"

text \<open>One \<^verbatim>\<open>receive_message\<close> request, as issued to the transport.\<close>

record recv_request =
  on_handle :: nat
  QueueUrl :: pystr
  MaxNumberOfMessages :: int
  VisibilityTimeout :: int
  WaitTimeSeconds :: int

datatype log_arg = StrArg string | IntArg int

datatype log_record = Debug string log_arg | Error string

text \<open>
  The state of the process: the store of objects (an address allocated by
  \<^verbatim>\<open>object.__new__\<close> whose attributes are not set yet maps to \<open>None\<close>), the class
  attribute \<^verbatim>\<open>_instances\<close>, the next free address, the number of transport handles
  opened so far by \<^verbatim>\<open>boto3.client\<close>, the polls issued so far, the logger's records and
  the lines printed.
\<close>

record world =
  heap :: "nat \<rightharpoonup> sqs_client"
  instances :: "nat list"
  next_addr :: nat
  opened :: nat
  requests :: "recv_request list"
  logged :: "log_record list"
  stdout :: "string list"

definition init_world :: world where
  "init_world = \<lparr>heap = Map.empty, instances = [], next_addr = 0, opened = 0,
     requests = [], logged = [], stdout = []\<rparr>"

definition logger_debug :: "world \<Rightarrow> string \<Rightarrow> log_arg \<Rightarrow> world" where
  "logger_debug w fmt a = w\<lparr>logged := logged w @ [Debug fmt a]\<rparr>"

definition logger_error :: "world \<Rightarrow> string \<Rightarrow> world" where
  "logger_error w msg = w\<lparr>logged := logged w @ [Error msg]\<rparr>"

definition print :: "world \<Rightarrow> string \<Rightarrow> world" where
  "print w line = w\<lparr>stdout := stdout w @ [line]\<rparr>"

section \<open>The client\<close>

subsection \<open>\<^verbatim>\<open>_init_client\<close>\<close>

text \<open>
  \<^verbatim>\<open>self.sqs = boto3.client('sqs', region_name=..., ...)\<close>: reads the three attributes
  of \<open>self\<close> (an object without attributes raises \<^verbatim>\<open>AttributeError\<close>), opens a new
  transport handle and stores it in \<open>self.sqs\<close>. The model covers the runs in which
  \<^verbatim>\<open>boto3.client\<close> returns a handle, as the spec's transport contract
  (\<^verbatim>\<open>openConnection(...) -> handle\<close>) has it; a region that boto3 refuses (missing,
  blank or malformed) makes the library raise there, and no theorem below speaks of
  such a run.
\<close>

definition init_client :: "world \<Rightarrow> nat \<Rightarrow> (exn + unit) \<times> world" where
  "init_client w self =
     (case heap w self of
        None \<Rightarrow> (Inl (AttributeError ''region_name''), w)
      | Some obj \<Rightarrow>
          (Inr (), w\<lparr>heap := (heap w)(self \<mapsto> obj\<lparr>sqs := Some (opened w)\<rparr>),
                      opened := opened w + 1\<rparr>))"

subsection \<open>\<^verbatim>\<open>_get_existing_instance\<close>, \<^verbatim>\<open>__new__\<close>, \<^verbatim>\<open>__init__\<close>\<close>

text \<open>The \<^verbatim>\<open>for instance in cls._instances\<close> loop, on the list of addresses.\<close>

fun get_existing_instance ::
  "(nat \<rightharpoonup> sqs_client) \<Rightarrow> nat list \<Rightarrow> pystr \<Rightarrow> pystr \<Rightarrow> pystr \<Rightarrow> pystr \<Rightarrow> exn + nat option"
where
  "get_existing_instance h [] r k s q = Inr None"
| "get_existing_instance h (a # as) r k s q =
     (case h a of
        None \<Rightarrow> Inl (AttributeError ''region_name'')
      | Some instance \<Rightarrow>
          if region_name instance = r
             \<and> aws_access_key_id instance = k
             \<and> aws_secret_access_key instance = s
             \<and> queue_url instance = q
          then Inr (Some a)
          else get_existing_instance h as r k s q)"

text \<open>
  \<^verbatim>\<open>__new__\<close>: an instance has no \<^verbatim>\<open>__bool__\<close> or \<^verbatim>\<open>__len__\<close>, so
  \<^verbatim>\<open>if existing_instance\<close> holds exactly when the search returned an instance.
  Otherwise \<^verbatim>\<open>super().__new__(cls)\<close> allocates an object without attributes, which
  is appended to \<^verbatim>\<open>_instances\<close>.
\<close>

definition SQSClient_new ::
  "world \<Rightarrow> pystr \<Rightarrow> pystr \<Rightarrow> pystr \<Rightarrow> pystr \<Rightarrow> (exn + nat) \<times> world"
where
  "SQSClient_new w r k s q =
     (case get_existing_instance (heap w) (instances w) r k s q of
        Inl e \<Rightarrow> (Inl e, w)
      | Inr (Some existing_instance) \<Rightarrow> (Inr existing_instance, w)
      | Inr None \<Rightarrow>
          (let new_instance = next_addr w
           in (Inr new_instance,
               w\<lparr>instances := instances w @ [new_instance],
                 next_addr := next_addr w + 1\<rparr>)))"

text \<open>
  \<^verbatim>\<open>__init__\<close> assigns the four attributes of \<open>self\<close> (creating them on an object that
  has none, overwriting them on one that has) and calls \<^verbatim>\<open>_init_client\<close>. The logger
  it fetches is the module's one logger, kept in \<open>logged\<close>.
\<close>

definition set_attributes ::
  "sqs_client option \<Rightarrow> pystr \<Rightarrow> pystr \<Rightarrow> pystr \<Rightarrow> pystr \<Rightarrow> sqs_client"
where
  "set_attributes old r k s q =
     (case old of
        None \<Rightarrow> \<lparr>region_name = r, aws_access_key_id = k, aws_secret_access_key = s,
                  queue_url = q, sqs = None\<rparr>
      | Some obj \<Rightarrow> obj\<lparr>region_name := r, aws_access_key_id := k,
                        aws_secret_access_key := s, queue_url := q\<rparr>)"

definition SQSClient_init ::
  "world \<Rightarrow> nat \<Rightarrow> pystr \<Rightarrow> pystr \<Rightarrow> pystr \<Rightarrow> pystr \<Rightarrow> (exn + unit) \<times> world"
where
  "SQSClient_init w self r k s q =
     init_client (w\<lparr>heap := (heap w)(self \<mapsto> set_attributes (heap w self) r k s q)\<rparr>) self"

text \<open>
  The expression \<^verbatim>\<open>SQSClient(r, k, s, q)\<close>. Python's \<^verbatim>\<open>type.__call__\<close> calls
  \<^verbatim>\<open>__new__\<close> and then, the result being an instance of the class, \<^verbatim>\<open>__init__\<close>
  on it with the same arguments: also when \<^verbatim>\<open>__new__\<close> returned an instance that
  existed before.
\<close>

definition SQSClient_call ::
  "world \<Rightarrow> pystr \<Rightarrow> pystr \<Rightarrow> pystr \<Rightarrow> pystr \<Rightarrow> (exn + nat) \<times> world"
where
  "SQSClient_call w r k s q =
     (case SQSClient_new w r k s q of
        (Inl e, w1) \<Rightarrow> (Inl e, w1)
      | (Inr obj, w1) \<Rightarrow>
          (case SQSClient_init w1 obj r k s q of
             (Inl e, w2) \<Rightarrow> (Inl e, w2)
           | (Inr u, w2) \<Rightarrow> (Inr obj, w2)))"

subsection \<open>\<^verbatim>\<open>read_events_with_retry\<close>\<close>

text \<open>
  The request \<^verbatim>\<open>self.sqs.receive_message(QueueUrl=self.queue_url, ...)\<close> is recorded in
  \<open>requests\<close>; its outcome is the transport's: \<open>tr n\<close> is what the transport does on the
  poll that \<open>n\<close> polls came before.
\<close>

definition issue :: "world \<Rightarrow> nat \<Rightarrow> sqs_client \<Rightarrow> int \<Rightarrow> int \<Rightarrow> int \<Rightarrow> world" where
  "issue w h obj max_batch visibility_timeout wait_time_seconds =
     w\<lparr>requests := requests w @
         [\<lparr>on_handle = h, QueueUrl = queue_url obj, MaxNumberOfMessages = max_batch,
           VisibilityTimeout = visibility_timeout, WaitTimeSeconds = wait_time_seconds\<rparr>]\<rparr>"

text \<open>\<^verbatim>\<open>response.get('Messages', [])\<close>\<close>

definition get_Messages :: "response \<Rightarrow> message list" where
  "get_Messages response = (case response ''Messages'' of None \<Rightarrow> [] | Some ms \<Rightarrow> ms)"

text \<open>
  The \<^verbatim>\<open>while retry_attempt <= max_retry_attempts\<close> loop, from the value of
  \<open>retry_attempt\<close> at the loop's head. Python's integers are unbounded. The statement
  \<^verbatim>\<open>raise HTTPClientError\<close> names the class, with no arguments. The result is
  \<open>Inl e\<close> when the call raises \<open>e\<close>, \<open>Inr (Some messages)\<close> when it returns the list, and
  \<open>Inr None\<close> when control leaves the loop and falls off the end of the function, which
  returns \<^verbatim>\<open>None\<close>.
\<close>

function read_loop ::
  "(nat \<Rightarrow> response outcome) \<Rightarrow> world \<Rightarrow> nat \<Rightarrow> int \<Rightarrow> int \<Rightarrow> int \<Rightarrow> int \<Rightarrow> int
     \<Rightarrow> (exn + message list option) \<times> world"
where
  "read_loop tr w self retry_attempt max_retry_attempts max_batch visibility_timeout
       wait_time_seconds =
     (if retry_attempt \<le> max_retry_attempts then
        (case heap w self of
           None \<Rightarrow> (Inl (AttributeError ''sqs''), w)
         | Some obj \<Rightarrow>
             (case sqs obj of
                None \<Rightarrow> (Inl (AttributeError ''sqs''), w)
              | Some h \<Rightarrow>
                  (case tr (length (requests w)) of
                     Returns response \<Rightarrow>
                       (Inr (Some (get_Messages response)),
                        issue w h obj max_batch visibility_timeout wait_time_seconds)
                   | Raises e \<Rightarrow>
                       if is_WaiterError e then
                         (case init_client
                                 (logger_debug
                                    (logger_debug
                                       (issue w h obj max_batch visibility_timeout
                                          wait_time_seconds)
                                       ''WaiterError: %s'' (StrArg (exn_str e)))
                                    ''Retry attempt: %s'' (IntArg retry_attempt))
                                 self of
                            (Inl e', w') \<Rightarrow> (Inl e', w')
                          | (Inr u, w') \<Rightarrow>
                              if retry_attempt = max_retry_attempts
                              then (Inl (raise_class (HTTPClientError_new Map.empty)),
                                    logger_error w' ''Max retry attempts reached. Exiting.'')
                              else read_loop tr w' self (retry_attempt + 1)
                                     max_retry_attempts max_batch visibility_timeout
                                     wait_time_seconds)
                       else (Inl e,
                             issue w h obj max_batch visibility_timeout wait_time_seconds))))
      else (Inr None, w))"
  by pat_completeness auto
termination
  by (relation "measure (\<lambda>(tr, w, self, retry_attempt, max_retry_attempts, rest).
                   nat (max_retry_attempts + 1 - retry_attempt))") auto

declare read_loop.simps [simp del]

text \<open>\<^verbatim>\<open>retry_attempt = 1\<close>, then the loop.\<close>

definition read_events_with_retry ::
  "(nat \<Rightarrow> response outcome) \<Rightarrow> world \<Rightarrow> nat \<Rightarrow> int \<Rightarrow> int \<Rightarrow> int \<Rightarrow> int
     \<Rightarrow> (exn + message list option) \<times> world"
where
  "read_events_with_retry tr w self max_retry_attempts max_batch visibility_timeout
       wait_time_seconds =
     read_loop tr w self 1 max_retry_attempts max_batch visibility_timeout wait_time_seconds"

subsection \<open>\<^verbatim>\<open>purge\<close>\<close>

text \<open>
  \<^verbatim>\<open>self.sqs.purge_queue(QueueUrl=self.queue_url)\<close> inside \<^verbatim>\<open>try\<close>, with
  \<^verbatim>\<open>except Exception as e: print(...)\<close>. The outcome of the transport's purge is the
  parameter \<open>purge_queue\<close>; a missing attribute of \<open>self\<close> raises inside the
  \<^verbatim>\<open>try\<close> as well. Every value of \<open>exn\<close> is an \<^verbatim>\<open>Exception\<close>. The handler does
  not re-raise, so the method returns \<^verbatim>\<open>None\<close> on both paths.
\<close>

definition purge :: "unit outcome \<Rightarrow> world \<Rightarrow> nat \<Rightarrow> (exn + unit) \<times> world" where
  "purge purge_queue w self =
     (case (case heap w self of
              None \<Rightarrow> Raises (AttributeError ''sqs'')
            | Some obj \<Rightarrow>
                (case sqs obj of
                   None \<Rightarrow> Raises (AttributeError ''sqs'')
                 | Some h \<Rightarrow> purge_queue)) of
        Returns u \<Rightarrow> (Inr (), print w ''All messages have been purged from the queue.'')
      | Raises e \<Rightarrow> (Inr (), print w (''Failed to purge the queue: '' @ exn_str e)))"

section \<open>The builder\<close>

text \<open>
  The fields of \<^verbatim>\<open>SQSClientBuilder\<close> carry the prefix \<open>b_\<close>: a record cannot share
  field names with \<open>sqs_client\<close>.
\<close>

record SQSClientBuilder =
  b_region_name :: pystr
  b_aws_access_key_id :: pystr
  b_aws_secret_access_key :: pystr
  b_queue_url :: pystr

definition SQSClientBuilder_init :: SQSClientBuilder where
  "SQSClientBuilder_init = \<lparr>b_region_name = None, b_aws_access_key_id = None,
     b_aws_secret_access_key = None, b_queue_url = None\<rparr>"

definition with_region :: "SQSClientBuilder \<Rightarrow> pystr \<Rightarrow> SQSClientBuilder" where
  "with_region b region = b\<lparr>b_region_name := region\<rparr>"

definition with_aws_credentials ::
  "SQSClientBuilder \<Rightarrow> pystr \<Rightarrow> pystr \<Rightarrow> SQSClientBuilder" where
  "with_aws_credentials b key_id secret =
     b\<lparr>b_aws_access_key_id := key_id, b_aws_secret_access_key := secret\<rparr>"

definition with_queue_url :: "SQSClientBuilder \<Rightarrow> pystr \<Rightarrow> SQSClientBuilder" where
  "with_queue_url b url = b\<lparr>b_queue_url := url\<rparr>"

text \<open>\<^verbatim>\<open>not x\<close> on \<^verbatim>\<open>None\<close> or a string: true for \<^verbatim>\<open>None\<close> and for \<^verbatim>\<open>''\<close>.\<close>

definition py_not :: "pystr \<Rightarrow> bool" where
  "py_not x = (case x of None \<Rightarrow> True | Some str \<Rightarrow> str = [])"

text \<open>\<^verbatim>\<open>sep.join(xs)\<close>\<close>

fun join :: "string \<Rightarrow> string list \<Rightarrow> string" where
  "join sep [] = []"
| "join sep [x] = x"
| "join sep (x # y # ys) = x @ sep @ join sep (y # ys)"

text \<open>
  \<^verbatim>\<open>build\<close>: the four \<^verbatim>\<open>if not self.f: missing_fields.append('f')\<close> statements in
  the source's order, the \<^verbatim>\<open>ValueError\<close> when the list is not empty, and the
  constructor call.
\<close>

definition build :: "world \<Rightarrow> SQSClientBuilder \<Rightarrow> (exn + nat) \<times> world" where
  "build w b =
     (let missing_fields = [];
          missing_fields =
            (if py_not (b_region_name b) then missing_fields @ [''region_name'']
             else missing_fields);
          missing_fields =
            (if py_not (b_aws_access_key_id b) then missing_fields @ [''aws_access_key_id'']
             else missing_fields);
          missing_fields =
            (if py_not (b_aws_secret_access_key b)
             then missing_fields @ [''aws_secret_access_key'']
             else missing_fields);
          missing_fields =
            (if py_not (b_queue_url b) then missing_fields @ [''queue_url'']
             else missing_fields)
      in if missing_fields \<noteq> []
         then (Inl (ValueError (''Missing required SQS connection parameters: ''
                                  @ join '', '' missing_fields)), w)
         else SQSClient_call w (b_region_name b) (b_aws_access_key_id b)
                (b_aws_secret_access_key b) (b_queue_url b))"

section \<open>Runs of calls\<close>





section \<open>Notions the theorems use\<close>





text \<open>The transport fails transiently on poll number \<open>n\<close>: it raises a \<^verbatim>\<open>WaiterError\<close>.\<close>

definition transient_at :: "(nat \<Rightarrow> response outcome) \<Rightarrow> nat \<Rightarrow> bool" where
  "transient_at tr n =
     (case tr n of Returns response \<Rightarrow> False | Raises e \<Rightarrow> is_WaiterError e)"

text \<open>
  The state in which the \<^verbatim>\<open>except WaiterError\<close> handler reaches its
  \<^verbatim>\<open>if retry_attempt == max_retry_attempts\<close>: the poll was issued, the two debug
  records were written and \<^verbatim>\<open>_init_client\<close> has run.
\<close>

definition transient_world ::
  "world \<Rightarrow> nat \<Rightarrow> nat \<Rightarrow> sqs_client \<Rightarrow> exn \<Rightarrow> int \<Rightarrow> int \<Rightarrow> int \<Rightarrow> int \<Rightarrow> world"
where
  "transient_world w self h obj e retry_attempt max_batch visibility_timeout
       wait_time_seconds =
     snd (init_client
            (logger_debug
               (logger_debug
                  (issue w h obj max_batch visibility_timeout wait_time_seconds)
                  ''WaiterError: %s'' (StrArg (exn_str e)))
               ''Retry attempt: %s'' (IntArg retry_attempt))
            self)"

text \<open>A client built in the empty process, for the concrete instances below.\<close>

definition example_client :: sqs_client where
  "example_client = \<lparr>region_name = Some ''eu-west-1'', aws_access_key_id = Some ''AKIAEXAMPLE'',
     aws_secret_access_key = Some ''secret'', queue_url = Some ''https://sqs.example/queue'',
     sqs = Some 0\<rparr>"

definition example_world :: world where
  "example_world = snd (SQSClient_call init_world (Some ''eu-west-1'') (Some ''AKIAEXAMPLE'')
     (Some ''secret'') (Some ''https://sqs.example/queue''))"


section \<open>Facts about the receive loop\<close>

text \<open>
  The loop is unfolded one iteration at a time: one lemma for each way an iteration
  can end.
\<close>

lemma transient_world_fields:
  assumes "heap w self = Some obj"
  shows "heap (transient_world w self h obj e a mb vt wt)
           = (heap w)(self \<mapsto> obj\<lparr>sqs := Some (opened w)\<rparr>)"
    and "opened (transient_world w self h obj e a mb vt wt) = opened w + 1"
    and "requests (transient_world w self h obj e a mb vt wt)
           = requests w @ [\<lparr>on_handle = h, QueueUrl = queue_url obj,
                MaxNumberOfMessages = mb, VisibilityTimeout = vt, WaitTimeSeconds = wt\<rparr>]"
    and "instances (transient_world w self h obj e a mb vt wt) = instances w"
    and "next_addr (transient_world w self h obj e a mb vt wt) = next_addr w"
    and "stdout (transient_world w self h obj e a mb vt wt) = stdout w"
  using assms
  by (simp_all add: transient_world_def init_client_def logger_debug_def issue_def)

lemma read_loop_success:
  assumes "a \<le> m" "heap w self = Some obj" "sqs obj = Some h"
    and "tr (length (requests w)) = Returns response"
  shows "read_loop tr w self a m mb vt wt
           = (Inr (Some (get_Messages response)), issue w h obj mb vt wt)"
  using assms by (subst read_loop.simps) simp

lemma read_loop_fatal:
  assumes "a \<le> m" "heap w self = Some obj" "sqs obj = Some h"
    and "tr (length (requests w)) = Raises e" "\<not> is_WaiterError e"
  shows "read_loop tr w self a m mb vt wt = (Inl e, issue w h obj mb vt wt)"
  using assms by (subst read_loop.simps) simp

lemma read_loop_transient_last:
  assumes "heap w self = Some obj" "sqs obj = Some h"
    and "tr (length (requests w)) = Raises e" "is_WaiterError e"
  shows "read_loop tr w self m m mb vt wt
           = (Inl (KeyError ''error''),
              logger_error (transient_world w self h obj e m mb vt wt)
                ''Max retry attempts reached. Exiting.'')"
  using assms
  by (subst read_loop.simps)
     (simp add: transient_world_def init_client_def logger_debug_def issue_def
        raise_class_def HTTPClientError_new_def)

lemma read_loop_transient_more:
  assumes "a < m" "heap w self = Some obj" "sqs obj = Some h"
    and "tr (length (requests w)) = Raises e" "is_WaiterError e"
  shows "read_loop tr w self a m mb vt wt
           = read_loop tr (transient_world w self h obj e a mb vt wt) self (a + 1) m mb vt wt"
  using assms
  by (subst read_loop.simps)
     (simp add: transient_world_def init_client_def logger_debug_def issue_def)

lemma issue_fields:
  "heap (issue w h obj mb vt wt) = heap w"
  "opened (issue w h obj mb vt wt) = opened w"
  "logged (issue w h obj mb vt wt) = logged w"
  "instances (issue w h obj mb vt wt) = instances w"
  "length (requests (issue w h obj mb vt wt)) = length (requests w) + 1"
  by (simp_all add: issue_def)

lemma transient_atD: "transient_at tr n \<Longrightarrow> \<exists>e. tr n = Raises e \<and> is_WaiterError e"
  by (auto simp: transient_at_def split: outcome.splits)

lemma read_loop_transient_prefix:
  assumes "a + int k \<le> m" "heap w self = Some obj" "sqs obj = Some h"
    and "\<forall>i<k. transient_at tr (length (requests w) + i)"
  shows "\<exists>wk. read_loop tr w self a m mb vt wt = read_loop tr wk self (a + int k) m mb vt wt
           \<and> opened wk = opened w + k
           \<and> length (requests wk) = length (requests w) + k
           \<and> heap wk = (heap w)(self \<mapsto> obj\<lparr>sqs := Some (if k = 0 then h else opened w + k - 1)\<rparr>)
           \<and> instances wk = instances w"
  using assms
proof (induction k arbitrary: w a obj h)
  case 0
  then show ?case
    by (intro exI[of _ w]) (auto simp: fun_upd_idem_iff)
next
  case (Suc k)
  from Suc.prems(4) have "transient_at tr (length (requests w))"
    by (metis add.right_neutral zero_less_Suc)
  then obtain e where e: "tr (length (requests w)) = Raises e" "is_WaiterError e"
    using transient_atD by blast
  let ?w1 = "transient_world w self h obj e a mb vt wt"
  let ?obj1 = "obj\<lparr>sqs := Some (opened w)\<rparr>"
  have less: "a < m" using Suc.prems(1) by simp
  have step: "read_loop tr w self a m mb vt wt = read_loop tr ?w1 self (a + 1) m mb vt wt"
    using less Suc.prems(2,3) e by (rule read_loop_transient_more)
  have h1: "heap ?w1 self = Some ?obj1" "sqs ?obj1 = Some (opened w)"
    by (simp_all add: transient_world_fields [OF Suc.prems(2)])
  have le1: "(a + 1) + int k \<le> m" using Suc.prems(1) by simp
  have tr1: "\<forall>i<k. transient_at tr (length (requests ?w1) + i)"
  proof (intro allI impI)
    fix i assume "i < k"
    then have "transient_at tr (length (requests w) + Suc i)"
      using Suc.prems(4) by (meson Suc_mono)
    then show "transient_at tr (length (requests ?w1) + i)"
      by (simp add: transient_world_fields [OF Suc.prems(2)])
  qed
  from Suc.IH [OF le1 h1 tr1] obtain wk where wk:
    "read_loop tr ?w1 self (a + 1) m mb vt wt = read_loop tr wk self (a + 1 + int k) m mb vt wt"
    "opened wk = opened ?w1 + k"
    "length (requests wk) = length (requests ?w1) + k"
    "heap wk = (heap ?w1)(self \<mapsto> ?obj1\<lparr>sqs := Some (if k = 0 then opened w else opened ?w1 + k - 1)\<rparr>)"
    "instances wk = instances ?w1"
    by blast
  show ?case
    using step wk
    by (intro exI[of _ wk]) (auto simp: transient_world_fields [OF Suc.prems(2)] add.commute add.left_commute)
qed

lemma read_loop_skip: "\<not> a \<le> m \<Longrightarrow> read_loop tr w self a m mb vt wt = (Inr None, w)"
  by (subst read_loop.simps) simp

lemma read_loop_no_object:
  "a \<le> m \<Longrightarrow> heap w self = None \<Longrightarrow>
     read_loop tr w self a m mb vt wt = (Inl (AttributeError ''sqs''), w)"
  by (subst read_loop.simps) simp

lemma read_loop_no_handle:
  "a \<le> m \<Longrightarrow> heap w self = Some obj \<Longrightarrow> sqs obj = None \<Longrightarrow>
     read_loop tr w self a m mb vt wt = (Inl (AttributeError ''sqs''), w)"
  by (subst read_loop.simps) simp

lemma read_loop_bounds:
  "read_loop tr w self a m mb vt wt = (result, w') \<Longrightarrow>
     length (requests w) \<le> length (requests w')
     \<and> int (length (requests w')) \<le> int (length (requests w)) + max 0 (m + 1 - a)
     \<and> opened w \<le> opened w'
     \<and> int (opened w') \<le> int (opened w) + max 0 (m + 1 - a)
     \<and> (a \<le> m \<longrightarrow> result \<noteq> Inr None)"
proof (induction "nat (m + 1 - a)" arbitrary: w a result w')
  case 0
  then have "\<not> a \<le> m" by simp
  with 0 show ?case by (simp add: read_loop_skip)
next
  case (Suc n)
  then have le: "a \<le> m" by simp
  show ?case
  proof (cases "heap w self")
    case None
    with Suc.prems le show ?thesis by (auto simp: read_loop_no_object)
  next
    case (Some obj)
    show ?thesis
    proof (cases "sqs obj")
      case None
      with Suc.prems le Some show ?thesis by (auto simp: read_loop_no_handle)
    next
      case h: (Some h)
      show ?thesis
      proof (cases "tr (length (requests w))")
        case (Returns response)
        with Suc.prems le Some h show ?thesis
          by (auto simp: read_loop_success issue_fields)
      next
        case (Raises e)
        show ?thesis
        proof (cases "is_WaiterError e")
          case False
          with Suc.prems le Some h Raises show ?thesis
            by (auto simp: read_loop_fatal issue_fields)
        next
          case True
          let ?w1 = "transient_world w self h obj e a mb vt wt"
          show ?thesis
          proof (cases "a = m")
            case eq: True
            with Suc.prems Some h Raises True show ?thesis
              by (auto simp: read_loop_transient_last logger_error_def
                    transient_world_fields [OF Some])
          next
            case False
            with le have less: "a < m" by simp
            have step: "read_loop tr ?w1 self (a + 1) m mb vt wt = (result, w')"
              using read_loop_transient_more [of a m w self obj h tr e mb vt wt]
                less Some h Raises True Suc.prems by simp
            have n: "n = nat (m + 1 - (a + 1))" using Suc.hyps(2) by simp
            from Suc.hyps(1) [OF n step] less show ?thesis
              by (auto simp: transient_world_fields [OF Some])
          qed
        qed
      qed
    qed
  qed
qed

lemma example_world_eq:
  "example_world = \<lparr>heap = [0 \<mapsto> example_client], instances = [0], next_addr = 1, opened = 1,
     requests = [], logged = [], stdout = []\<rparr>"
  by (simp add: example_world_def SQSClient_call_def SQSClient_new_def SQSClient_init_def
        init_client_def set_attributes_def init_world_def example_client_def)

lemma example_world_fields:
  "heap example_world 0 = Some example_client"
  "sqs example_client = Some 0"
  "requests example_world = []"
  "opened example_world = 1"
  by (simp_all add: example_world_eq) (simp add: example_client_def)

section \<open>Facts about the registry\<close>
















section \<open>The receive call\<close>

text \<open>
  C1. A receive call whose first poll succeeds (there is a first poll when
  \<open>max_retry_attempts \<ge> 1\<close>, on a client that has its transport handle) returns the
  message list of that response at once: the list stored under \<^verbatim>\<open>'Messages'\<close>, whatever
  it holds, and the empty list when the key is absent or the list is empty, which is a
  result and not an error. Exactly one poll is issued, on the handle the client had, no
  handle is opened, the client keeps its handle and nothing is logged.
\<close>

theorem first_attempt_success:
  assumes "1 \<le> max_retry_attempts"
    and "heap w self = Some obj" and "sqs obj = Some h"
    and "tr (length (requests w)) = Returns response"
    and "read_events_with_retry tr w self max_retry_attempts max_batch visibility_timeout
           wait_time_seconds = (result, w')"
  shows "result = Inr (Some (get_Messages response))
       \<and> (\<forall>ms. response ''Messages'' = Some ms \<longrightarrow> result = Inr (Some ms))
       \<and> (response ''Messages'' = None \<or> response ''Messages'' = Some [] \<longrightarrow>
            result = Inr (Some []))
       \<and> requests w' = requests w @
            [\<lparr>on_handle = h, QueueUrl = queue_url obj, MaxNumberOfMessages = max_batch,
              VisibilityTimeout = visibility_timeout, WaitTimeSeconds = wait_time_seconds\<rparr>]
       \<and> opened w' = opened w \<and> heap w' = heap w \<and> logged w' = logged w"
proof -
  have "read_loop tr w self 1 max_retry_attempts max_batch visibility_timeout wait_time_seconds
          = (Inr (Some (get_Messages response)),
             issue w h obj max_batch visibility_timeout wait_time_seconds)"
    using assms(1-4) by (rule read_loop_success)
  with assms(5) have "result = Inr (Some (get_Messages response))"
    and "w' = issue w h obj max_batch visibility_timeout wait_time_seconds"
    by (simp_all add: read_events_with_retry_def)
  then show ?thesis
    by (auto simp: issue_def get_Messages_def)
qed

theorem first_attempt_success_witness:
  "(1::int) \<le> 3
   \<and> heap example_world 0 = Some example_client \<and> sqs example_client = Some 0
   \<and> fst (read_events_with_retry
         (\<lambda>n. Returns [''Messages'' \<mapsto>
                 [\<lparr>Body = ''first'', ReceiptHandle = ''rh-1'', MessageAttributes = []\<rparr>,
                  \<lparr>Body = ''second'', ReceiptHandle = ''rh-2'',
                    MessageAttributes = [(''component'', ''web_layer'')]\<rparr>]])
         example_world 0 3 10 60 10)
       = Inr (Some [\<lparr>Body = ''first'', ReceiptHandle = ''rh-1'', MessageAttributes = []\<rparr>,
                    \<lparr>Body = ''second'', ReceiptHandle = ''rh-2'',
                      MessageAttributes = [(''component'', ''web_layer'')]\<rparr>])
   \<and> fst (read_events_with_retry (\<lambda>n. Returns Map.empty) example_world 0 3 10 60 10)
       = Inr (Some [])
   \<and> opened (snd (read_events_with_retry (\<lambda>n. Returns Map.empty) example_world 0 3 10 60 10))
       = opened example_world
   \<and> length (requests
        (snd (read_events_with_retry (\<lambda>n. Returns Map.empty) example_world 0 3 10 60 10))) = 1"
proof -
  let ?ms = "[\<lparr>Body = ''first'', ReceiptHandle = ''rh-1'', MessageAttributes = []\<rparr>,
              \<lparr>Body = ''second'', ReceiptHandle = ''rh-2'',
                MessageAttributes = [(''component'', ''web_layer'')]\<rparr>]"
  let ?full = "[''Messages'' \<mapsto> ?ms] :: response"
  have le: "(1::int) \<le> 3" by simp
  have full: "(\<lambda>n. Returns ?full) (length (requests example_world)) = Returns ?full"
    by simp
  have none: "(\<lambda>n. Returns Map.empty :: response outcome) (length (requests example_world))
              = Returns Map.empty" by simp
  note T = first_attempt_success [OF le example_world_fields(1,2) full surjective_pairing,
             of 10 60 10]
  from T have imp: "\<forall>ms. ?full ''Messages'' = Some ms \<longrightarrow>
      fst (read_events_with_retry (\<lambda>n. Returns ?full) example_world 0 3 10 60 10)
        = Inr (Some ms)"
    by blast
  have stored: "?full ''Messages'' = Some ?ms" by simp
  from imp stored
  have a: "fst (read_events_with_retry (\<lambda>n. Returns ?full) example_world 0 3 10 60 10)
             = Inr (Some ?ms)"
    by blast
  show ?thesis
    using a first_attempt_success [OF le example_world_fields(1,2) none surjective_pairing,
            of 10 60 10]
    by (simp add: example_world_fields get_Messages_def)
qed

text \<open>
  C2. With \<open>max_retry_attempts = 3\<close>, transient failures of the first two polls and a
  successful third poll, the call returns the message list of the third response and
  opens exactly two handles, one after each failure: the second poll runs on the first
  new handle, the third on the second, which the client keeps.
\<close>

theorem two_transient_then_success:
  assumes "heap w self = Some obj" and "sqs obj = Some h"
    and "transient_at tr (length (requests w))"
    and "transient_at tr (length (requests w) + 1)"
    and "tr (length (requests w) + 2) = Returns response"
    and "read_events_with_retry tr w self 3 max_batch visibility_timeout wait_time_seconds
           = (result, w')"
  shows "result = Inr (Some (get_Messages response))
       \<and> opened w' = opened w + 2
       \<and> length (requests w') = length (requests w) + 3
       \<and> map on_handle (drop (length (requests w)) (requests w'))
           = [h, opened w, opened w + 1]
       \<and> heap w' = (heap w)(self \<mapsto> obj\<lparr>sqs := Some (opened w + 1)\<rparr>)"
proof -
  obtain e1 where e1: "tr (length (requests w)) = Raises e1" "is_WaiterError e1"
    using assms(3) transient_atD by blast
  obtain e2 where e2: "tr (length (requests w) + 1) = Raises e2" "is_WaiterError e2"
    using assms(4) transient_atD by blast
  let ?w1 = "transient_world w self h obj e1 1 max_batch visibility_timeout wait_time_seconds"
  let ?obj1 = "obj\<lparr>sqs := Some (opened w)\<rparr>"
  let ?w2 = "transient_world ?w1 self (opened w) ?obj1 e2 2 max_batch visibility_timeout
               wait_time_seconds"
  let ?obj2 = "?obj1\<lparr>sqs := Some (opened w + 1)\<rparr>"
  note f1 = transient_world_fields [OF assms(1)]
  have h1: "heap ?w1 self = Some ?obj1" "sqs ?obj1 = Some (opened w)"
    by (simp_all add: f1)
  note f2 = transient_world_fields [OF h1(1)]
  have h2: "heap ?w2 self = Some ?obj2" "sqs ?obj2 = Some (opened w + 1)"
    by (simp_all add: f2 f1)
  have s1: "read_loop tr w self 1 3 max_batch visibility_timeout wait_time_seconds
              = read_loop tr ?w1 self 2 3 max_batch visibility_timeout wait_time_seconds"
    using read_loop_transient_more [of 1 3 w self obj h tr e1] assms(1,2) e1 by simp
  have t2: "tr (length (requests ?w1)) = Raises e2"
    using e2(1) by (simp add: f1)
  have s2: "read_loop tr ?w1 self 2 3 max_batch visibility_timeout wait_time_seconds
              = read_loop tr ?w2 self 3 3 max_batch visibility_timeout wait_time_seconds"
    using read_loop_transient_more [of 2 3 ?w1 self ?obj1 "opened w" tr e2] h1 t2 e2(2)
    by simp
  have t3: "tr (length (requests ?w2)) = Returns response"
    using assms(5) by (simp add: f1 f2)
  have s3: "read_loop tr ?w2 self 3 3 max_batch visibility_timeout wait_time_seconds
              = (Inr (Some (get_Messages response)),
                 issue ?w2 (opened w + 1) ?obj2 max_batch visibility_timeout
                   wait_time_seconds)"
    using read_loop_success [of 3 3 ?w2 self ?obj2 "opened w + 1" tr response] h2 t3
    by simp
  from assms(6) s1 s2 s3 have r: "result = Inr (Some (get_Messages response))"
    and w': "w' = issue ?w2 (opened w + 1) ?obj2 max_batch visibility_timeout
                    wait_time_seconds"
    by (simp_all add: read_events_with_retry_def)
  have "opened w' = opened w + 2" by (simp add: w' issue_fields f1 f2)
  moreover have "requests w' = requests w @
      [\<lparr>on_handle = h, QueueUrl = queue_url obj, MaxNumberOfMessages = max_batch,
         VisibilityTimeout = visibility_timeout, WaitTimeSeconds = wait_time_seconds\<rparr>,
       \<lparr>on_handle = opened w, QueueUrl = queue_url obj, MaxNumberOfMessages = max_batch,
         VisibilityTimeout = visibility_timeout, WaitTimeSeconds = wait_time_seconds\<rparr>,
       \<lparr>on_handle = opened w + 1, QueueUrl = queue_url obj, MaxNumberOfMessages = max_batch,
         VisibilityTimeout = visibility_timeout, WaitTimeSeconds = wait_time_seconds\<rparr>]"
    by (simp add: w' issue_def f1 f2)
  moreover have "heap w' = (heap w)(self \<mapsto> obj\<lparr>sqs := Some (opened w + 1)\<rparr>)"
    by (simp add: w' issue_fields f1 f2)
  ultimately show ?thesis using r by simp
qed

theorem two_transient_then_success_witness:
  "heap example_world 0 = Some example_client \<and> sqs example_client = Some 0
   \<and> transient_at
         (\<lambda>n. if n < 2 then Raises (WaiterError ''timed out'')
               else Returns [''Messages'' \<mapsto>
                      [\<lparr>Body = ''hello'', ReceiptHandle = ''rh-1'', MessageAttributes = []\<rparr>]])
         (length (requests example_world))
   \<and> fst (read_events_with_retry
         (\<lambda>n. if n < 2 then Raises (WaiterError ''timed out'')
               else Returns [''Messages'' \<mapsto>
                      [\<lparr>Body = ''hello'', ReceiptHandle = ''rh-1'', MessageAttributes = []\<rparr>]])
         example_world 0 3 10 60 10)
       = Inr (Some [\<lparr>Body = ''hello'', ReceiptHandle = ''rh-1'', MessageAttributes = []\<rparr>])
   \<and> opened (snd (read_events_with_retry
         (\<lambda>n. if n < 2 then Raises (WaiterError ''timed out'')
               else Returns [''Messages'' \<mapsto>
                      [\<lparr>Body = ''hello'', ReceiptHandle = ''rh-1'', MessageAttributes = []\<rparr>]])
         example_world 0 3 10 60 10)) = opened example_world + 2
   \<and> heap (snd (read_events_with_retry
         (\<lambda>n. if n < 2 then Raises (WaiterError ''timed out'')
               else Returns [''Messages'' \<mapsto>
                      [\<lparr>Body = ''hello'', ReceiptHandle = ''rh-1'', MessageAttributes = []\<rparr>]])
         example_world 0 3 10 60 10)) 0 = Some (example_client\<lparr>sqs := Some 2\<rparr>)"
proof -
  let ?ms = "[\<lparr>Body = ''hello'', ReceiptHandle = ''rh-1'', MessageAttributes = []\<rparr>]"
  let ?tr = "\<lambda>n::nat. if n < 2 then Raises (WaiterError ''timed out'')
               else Returns [''Messages'' \<mapsto> ?ms]"
  have t0: "transient_at ?tr (length (requests example_world))"
    by (simp add: transient_at_def example_world_fields)
  have t1: "transient_at ?tr (length (requests example_world) + 1)"
    by (simp add: transient_at_def example_world_fields)
  have t2: "?tr (length (requests example_world) + 2) = Returns [''Messages'' \<mapsto> ?ms]"
    by simp
  show ?thesis
    using two_transient_then_success
            [OF example_world_fields(1,2) t0 t1 t2 surjective_pairing, of 10 60 10] t0
    by (simp add: example_world_fields get_Messages_def)
qed

text \<open>
  C3, the code at a failing input. On the client of the example, with
  \<open>max_retry_attempts = 1\<close> and a transport whose poll raises a \<^verbatim>\<open>WaiterError\<close>, the
  call issues one poll, reconnects once (the client holds the new handle 1 when the
  exception leaves, so the reconnect comes before the test for the last attempt) and
  logs the three records. Then \<^verbatim>\<open>raise HTTPClientError\<close> builds botocore's exception
  without its \<^verbatim>\<open>error\<close> keyword: what leaves the call is \<^verbatim>\<open>KeyError('error')\<close>, not
  the \<^verbatim>\<open>HTTPClientError\<close> that the method's docstring announces and that the claim
  calls \<^verbatim>\<open>RetryExhaustedError\<close>.
\<close>

theorem single_attempt_raises_KeyError:
  "read_events_with_retry (\<lambda>n. Raises (WaiterError ''timed out'')) example_world 0 1 10 60 10
     = (Inl (KeyError ''error''),
        example_world
          \<lparr>heap := [0 \<mapsto> example_client\<lparr>sqs := Some 1\<rparr>],
           opened := 2,
           requests := [\<lparr>on_handle = 0, QueueUrl = Some ''https://sqs.example/queue'',
                         MaxNumberOfMessages = 10, VisibilityTimeout = 60,
                         WaitTimeSeconds = 10\<rparr>],
           logged := [Debug ''WaiterError: %s'' (StrArg ''timed out''),
                      Debug ''Retry attempt: %s'' (IntArg 1),
                      Error ''Max retry attempts reached. Exiting.'']\<rparr>)
   \<and> (\<forall>m. fst (read_events_with_retry (\<lambda>n. Raises (WaiterError ''timed out''))
                   example_world 0 1 10 60 10) \<noteq> Inl (HTTPClientError m))"
proof -
  have "read_loop (\<lambda>n. Raises (WaiterError ''timed out'')) example_world 0 1 1 10 60 10
          = (Inl (KeyError ''error''),
             logger_error
               (transient_world example_world 0 0 example_client (WaiterError ''timed out'')
                  1 10 60 10)
               ''Max retry attempts reached. Exiting.'')"
    using example_world_fields(1,2) by (rule read_loop_transient_last) simp_all
  then show ?thesis
    by (simp add: read_events_with_retry_def logger_error_def transient_world_def
          init_client_def logger_debug_def issue_def example_world_eq example_client_def)
qed

text \<open>
  C4. A failure of a poll that is not a \<^verbatim>\<open>WaiterError\<close> leaves the call at once as
  the same exception, on whichever attempt it happens: after \<open>k\<close> transient failures
  (\<open>k < max_retry_attempts\<close>) and a non-transient one on poll \<open>k + 1\<close>, the call raises
  that exception, has issued \<open>k + 1\<close> polls and opened only the \<open>k\<close> handles of the
  transient failures. On the first attempt (\<open>k = 0\<close>) no handle is opened, the store is
  unchanged and nothing is logged.
\<close>

theorem non_transient_failure_propagates:
  assumes "int k < max_retry_attempts"
    and "heap w self = Some obj" and "sqs obj = Some h"
    and "\<forall>i<k. transient_at tr (length (requests w) + i)"
    and "tr (length (requests w) + k) = Raises e" and "\<not> is_WaiterError e"
    and "read_events_with_retry tr w self max_retry_attempts max_batch visibility_timeout
           wait_time_seconds = (result, w')"
  shows "result = Inl e
       \<and> opened w' = opened w + k
       \<and> length (requests w') = length (requests w) + k + 1
       \<and> heap w' = (heap w)
           (self \<mapsto> obj\<lparr>sqs := Some (if k = 0 then h else opened w + k - 1)\<rparr>)
       \<and> (k = 0 \<longrightarrow> heap w' = heap w \<and> logged w' = logged w)"
proof -
  let ?hk = "if k = 0 then h else opened w + k - 1"
  have le: "1 + int k \<le> max_retry_attempts" using assms(1) by simp
  from read_loop_transient_prefix [OF le assms(2,3,4)]
  obtain wk where wk:
    "read_loop tr w self 1 max_retry_attempts max_batch visibility_timeout wait_time_seconds
       = read_loop tr wk self (1 + int k) max_retry_attempts max_batch visibility_timeout
           wait_time_seconds"
    "opened wk = opened w + k"
    "length (requests wk) = length (requests w) + k"
    "heap wk = (heap w)(self \<mapsto> obj\<lparr>sqs := Some ?hk\<rparr>)"
    by blast
  have hk: "heap wk self = Some (obj\<lparr>sqs := Some ?hk\<rparr>)" "sqs (obj\<lparr>sqs := Some ?hk\<rparr>) = Some ?hk"
    by (simp_all add: wk(4))
  have trk: "tr (length (requests wk)) = Raises e" using assms(5) by (simp add: wk(3))
  have fatal: "read_loop tr wk self (1 + int k) max_retry_attempts max_batch
                 visibility_timeout wait_time_seconds
               = (Inl e, issue wk ?hk (obj\<lparr>sqs := Some ?hk\<rparr>) max_batch visibility_timeout
                           wait_time_seconds)"
    using le hk trk assms(6) by (rule read_loop_fatal)
  from assms(7) wk(1) fatal have r: "result = Inl e"
    and w': "w' = issue wk ?hk (obj\<lparr>sqs := Some ?hk\<rparr>) max_batch visibility_timeout
                    wait_time_seconds"
    by (simp_all add: read_events_with_retry_def)
  have zero: "k = 0 \<longrightarrow> heap w' = heap w \<and> logged w' = logged w"
  proof
    assume k: "k = 0"
    then have "read_loop tr w self 1 max_retry_attempts max_batch visibility_timeout
                 wait_time_seconds
               = (Inl e, issue w h obj max_batch visibility_timeout wait_time_seconds)"
      using read_loop_fatal [of 1 max_retry_attempts w self obj h tr e] le assms(2,3,5,6)
      by simp
    with assms(7) have "w' = issue w h obj max_batch visibility_timeout wait_time_seconds"
      by (simp add: read_events_with_retry_def)
    then show "heap w' = heap w \<and> logged w' = logged w"
      by (simp add: issue_fields)
  qed
  show ?thesis
    using r zero by (simp add: w' issue_fields wk(2,3,4))
qed

theorem non_transient_failure_propagates_witness:
  "int 1 < 3
   \<and> heap example_world 0 = Some example_client \<and> sqs example_client = Some 0
   \<and> transient_at
         (\<lambda>n. if n = 0 then Raises (WaiterError ''timed out'')
               else Raises (ClientError ''AccessDenied''))
         (length (requests example_world))
   \<and> fst (read_events_with_retry
         (\<lambda>n. if n = 0 then Raises (WaiterError ''timed out'')
               else Raises (ClientError ''AccessDenied''))
         example_world 0 3 10 60 10) = Inl (ClientError ''AccessDenied'')
   \<and> opened (snd (read_events_with_retry
         (\<lambda>n. if n = 0 then Raises (WaiterError ''timed out'')
               else Raises (ClientError ''AccessDenied''))
         example_world 0 3 10 60 10)) = opened example_world + 1
   \<and> length (requests (snd (read_events_with_retry
         (\<lambda>n. if n = 0 then Raises (WaiterError ''timed out'')
               else Raises (ClientError ''AccessDenied''))
         example_world 0 3 10 60 10))) = 2"
proof -
  let ?tr = "\<lambda>n::nat. if n = 0 then Raises (WaiterError ''timed out'')
               else (Raises (ClientError ''AccessDenied'') :: response outcome)"
  have lt: "int 1 < 3" by simp
  have t0: "transient_at ?tr (length (requests example_world))"
    by (simp add: transient_at_def example_world_fields)
  have pre: "\<forall>i<1. transient_at ?tr (length (requests example_world) + i)"
    using t0 by simp
  have at: "?tr (length (requests example_world) + 1) = Raises (ClientError ''AccessDenied'')"
    by simp
  have nt: "\<not> is_WaiterError (ClientError ''AccessDenied'')" by simp
  show ?thesis
    using non_transient_failure_propagates
            [OF lt example_world_fields(1,2) pre at nt surjective_pairing, of 10 60 10] t0
    by (simp add: example_world_fields)
qed

text \<open>
  C5. The loop is a total function (its termination is proved with the measure
  \<open>max_retry_attempts + 1 - retry_attempt\<close>), so every receive call ends. With
  \<open>max_retry_attempts \<ge> 1\<close> and any behaviour of the transport it returns a list or
  raises, after at most \<open>max_retry_attempts\<close> polls and at most \<open>max_retry_attempts\<close>
  reconnects.
\<close>

theorem read_events_bounded:
  assumes "1 \<le> max_retry_attempts"
  shows "\<exists>result w'.
           read_events_with_retry tr w self max_retry_attempts max_batch visibility_timeout
             wait_time_seconds = (result, w')
         \<and> result \<noteq> Inr None
         \<and> length (requests w) \<le> length (requests w')
         \<and> int (length (requests w')) - int (length (requests w)) \<le> max_retry_attempts
         \<and> opened w \<le> opened w'
         \<and> int (opened w') - int (opened w) \<le> max_retry_attempts"
proof -
  obtain result w' where eq:
    "read_loop tr w self 1 max_retry_attempts max_batch visibility_timeout wait_time_seconds
       = (result, w')"
    by (cases "read_loop tr w self 1 max_retry_attempts max_batch visibility_timeout
                 wait_time_seconds") blast
  from read_loop_bounds [OF eq] assms show ?thesis
    by (simp add: read_events_with_retry_def eq)
qed

theorem read_events_bounded_witness:
  "(1::int) \<le> 2
   \<and> fst (read_events_with_retry (\<lambda>n. Raises (WaiterError ''timed out'')) example_world 0 2
            10 60 10) \<noteq> Inr None
   \<and> int (length (requests (snd (read_events_with_retry
              (\<lambda>n. Raises (WaiterError ''timed out'')) example_world 0 2 10 60 10))))
       - int (length (requests example_world)) \<le> 2
   \<and> int (opened (snd (read_events_with_retry
              (\<lambda>n. Raises (WaiterError ''timed out'')) example_world 0 2 10 60 10)))
       - int (opened example_world) \<le> 2"
proof -
  have le: "(1::int) \<le> 2" by simp
  show ?thesis
    using read_events_bounded [OF le, of "\<lambda>n. Raises (WaiterError ''timed out'')"
            example_world 0 10 60 10]
    by auto
qed

text \<open>
  C10. With \<open>max_retry_attempts \<le> 0\<close> the loop body is never entered:
  \<^verbatim>\<open>read_events_with_retry\<close> issues no poll, opens no handle, raises nothing and returns
  \<^verbatim>\<open>None\<close>, not a list; the state is untouched.
\<close>

theorem read_events_nonpositive_budget:
  "max_retry_attempts \<le> 0 \<Longrightarrow>
     read_events_with_retry tr w self max_retry_attempts max_batch visibility_timeout
       wait_time_seconds = (Inr None, w)"
  by (simp add: read_events_with_retry_def read_loop.simps)

theorem read_events_nonpositive_budget_witness:
  "(0::int) \<le> 0 \<and>
   read_events_with_retry (\<lambda>n. Raises (WaiterError ''timeout'')) init_world 0 0 10 60 10
     = (Inr None, init_world)"
  using read_events_nonpositive_budget
          [of 0 "\<lambda>n. Raises (WaiterError ''timeout'')" init_world 0 10 60 10]
  by simp

section \<open>The registry\<close>



text \<open>
  C7, the code at a failing input. Constructing a client in the empty process gives
  instance 0 with handle 0. Constructing again with the same four arguments returns
  instance 0, and \<^verbatim>\<open>__init__\<close> runs on it once more: \<^verbatim>\<open>_init_client\<close> opens a second
  handle and stores it over the first. The claim says that no handle is opened and the
  instance keeps the one it had.
\<close>

theorem repeated_construction_reopens_handle:
  "fst (SQSClient_call init_world (Some ''eu-west-1'') (Some ''AKIAEXAMPLE'') (Some ''secret'')
          (Some ''https://sqs.example/queue'')) = Inr 0
   \<and> heap example_world 0 = Some example_client
   \<and> sqs example_client = Some 0
   \<and> opened example_world = 1
   \<and> SQSClient_call example_world (Some ''eu-west-1'') (Some ''AKIAEXAMPLE'') (Some ''secret'')
          (Some ''https://sqs.example/queue'')
       = (Inr 0, example_world\<lparr>heap := [0 \<mapsto> example_client\<lparr>sqs := Some 1\<rparr>], opened := 2\<rparr>)"
  by (simp add: example_world_eq SQSClient_call_def SQSClient_new_def SQSClient_init_def
        init_client_def set_attributes_def init_world_def example_client_def Let_def)

section \<open>Validation of the connection fields\<close>

text \<open>
  C8 as stated fails on the class's own constructor: \<^verbatim>\<open>SQSClient(...)\<close> checks nothing,
  and a call with an empty or missing queue url returns an instance.
\<close>

theorem constructor_accepts_empty_field:
  "fst (SQSClient_call init_world (Some ''eu-west-1'') (Some ''AKIAEXAMPLE'') (Some ''secret'')
          (Some [])) = Inr 0
   \<and> fst (SQSClient_call init_world (Some ''eu-west-1'') (Some ''AKIAEXAMPLE'') (Some ''secret'')
          None) = Inr 0"
  by (simp add: SQSClient_call_def SQSClient_new_def SQSClient_init_def init_client_def
        set_attributes_def init_world_def Let_def)

text \<open>
  C8, amended. The check is in \<^verbatim>\<open>SQSClientBuilder.build\<close>. When at least one of
  the four fields of the builder is \<^verbatim>\<open>None\<close> or empty, \<^verbatim>\<open>build\<close> raises a
  \<^verbatim>\<open>ValueError\<close> whose message lists, after a fixed prefix and separated by commas,
  exactly the names of those fields, in the order region\_name, aws\_access\_key\_id,
  aws\_secret\_access\_key, queue\_url, and the state is unchanged. When all four are
  non-empty, \<^verbatim>\<open>build\<close> raises nothing of its own: it is the constructor call on the
  four fields, with that call's result and state.
\<close>

theorem build_validates:
  "(let names = map fst (filter (\<lambda>(name, val). val = None \<or> val = Some [])
                   [(''region_name'', b_region_name b),
                    (''aws_access_key_id'', b_aws_access_key_id b),
                    (''aws_secret_access_key'', b_aws_secret_access_key b),
                    (''queue_url'', b_queue_url b)])
    in (names \<noteq> [] \<longrightarrow>
          build w b = (Inl (ValueError (''Missing required SQS connection parameters: ''
                                          @ join '', '' names)), w))
     \<and> (names = [] \<longrightarrow>
          build w b = SQSClient_call w (b_region_name b) (b_aws_access_key_id b)
                        (b_aws_secret_access_key b) (b_queue_url b)))"
proof -
  have names: "map fst (filter (\<lambda>(name, val). val = None \<or> val = Some [])
                   [(''region_name'', b_region_name b),
                    (''aws_access_key_id'', b_aws_access_key_id b),
                    (''aws_secret_access_key'', b_aws_secret_access_key b),
                    (''queue_url'', b_queue_url b)])
     = (if py_not (b_region_name b) then [''region_name''] else [])
       @ (if py_not (b_aws_access_key_id b) then [''aws_access_key_id''] else [])
       @ (if py_not (b_aws_secret_access_key b) then [''aws_secret_access_key''] else [])
       @ (if py_not (b_queue_url b) then [''queue_url''] else [])"
    by (simp add: py_not_def split: option.splits)
  show ?thesis
    unfolding Let_def names
    by (simp add: build_def Let_def)
qed

theorem build_validates_witness:
  "build init_world
     (with_aws_credentials SQSClientBuilder_init (Some ''AKIAEXAMPLE'') (Some []))
     = (Inl (ValueError
          ''Missing required SQS connection parameters: region_name, aws_secret_access_key, queue_url''),
        init_world)
   \<and> build init_world (with_region SQSClientBuilder_init (Some ''eu-west-1''))
     = (Inl (ValueError
          ''Missing required SQS connection parameters: aws_access_key_id, aws_secret_access_key, queue_url''),
        init_world)
   \<and> build init_world
        (with_queue_url
           (with_aws_credentials (with_region SQSClientBuilder_init (Some ''eu-west-1''))
              (Some ''AKIAEXAMPLE'') (Some ''secret''))
           (Some ''https://sqs.example/queue''))
     = SQSClient_call init_world (Some ''eu-west-1'') (Some ''AKIAEXAMPLE'') (Some ''secret'')
         (Some ''https://sqs.example/queue'')"
proof -
  let ?bad = "with_aws_credentials SQSClientBuilder_init (Some ''AKIAEXAMPLE'') (Some [])"
  let ?bad2 = "with_region SQSClientBuilder_init (Some ''eu-west-1'')"
  let ?good = "with_queue_url
           (with_aws_credentials (with_region SQSClientBuilder_init (Some ''eu-west-1''))
              (Some ''AKIAEXAMPLE'') (Some ''secret''))
           (Some ''https://sqs.example/queue'')"
  have bad: "build init_world ?bad
     = (Inl (ValueError
          ''Missing required SQS connection parameters: region_name, aws_secret_access_key, queue_url''),
        init_world)"
    using build_validates [of ?bad init_world]
    by (simp add: with_aws_credentials_def SQSClientBuilder_init_def)
  have bad2: "build init_world ?bad2
     = (Inl (ValueError
          ''Missing required SQS connection parameters: aws_access_key_id, aws_secret_access_key, queue_url''),
        init_world)"
    using build_validates [of ?bad2 init_world]
    by (simp add: with_region_def SQSClientBuilder_init_def)
  have good: "build init_world ?good
          = SQSClient_call init_world (Some ''eu-west-1'') (Some ''AKIAEXAMPLE'') (Some ''secret'')
              (Some ''https://sqs.example/queue'')"
    using build_validates [of ?good init_world]
    by (simp add: with_aws_credentials_def with_region_def with_queue_url_def
          SQSClientBuilder_init_def)
  show ?thesis using bad bad2 good by simp
qed

section \<open>Purge\<close>

text \<open>
  C9 as stated fails: when the transport's purge raises, \<^verbatim>\<open>purge\<close> prints a line and
  returns \<^verbatim>\<open>None\<close>; the caller does not get the error.
\<close>

theorem purge_failure_swallowed:
  "purge (Raises (ClientError ''AccessDenied'')) example_world 0
     = (Inr (), print example_world ''Failed to purge the queue: AccessDenied'')
   \<and> fst (purge (Raises (ClientError ''AccessDenied'')) example_world 0)
       \<noteq> Inl (ClientError ''AccessDenied'')"
  by (simp add: purge_def example_world_eq example_client_def)

text \<open>
  C9, amended. On a client that has its handle, a failure \<open>e\<close> of the transport's
  purge makes \<^verbatim>\<open>purge\<close> print \<^verbatim>\<open>Failed to purge the queue: \<close> followed by
  \<^verbatim>\<open>str(e)\<close> and return \<^verbatim>\<open>None\<close>; a success makes it print the confirmation line.
  \<^verbatim>\<open>purge\<close> never raises.
\<close>

theorem purge_prints_and_returns:
  assumes "heap w self = Some obj" and "sqs obj = Some h"
  shows "purge (Raises e) w self
           = (Inr (), print w (''Failed to purge the queue: '' @ exn_str e))
       \<and> purge (Returns ()) w self
           = (Inr (), print w ''All messages have been purged from the queue.'')
       \<and> fst (purge purge_queue w self) = Inr ()"
  using assms by (simp add: purge_def split: outcome.splits)

theorem purge_prints_and_returns_witness:
  "heap example_world 0 = Some example_client \<and> sqs example_client = Some 0
   \<and> purge (Raises (OtherException ''PurgeQueueInProgress'')) example_world 0
       = (Inr (), example_world\<lparr>stdout := [''Failed to purge the queue: PurgeQueueInProgress'']\<rparr>)"
  using purge_prints_and_returns [OF example_world_fields(1,2),
          of "OtherException ''PurgeQueueInProgress''" "Returns ()"]
  by (simp add: example_world_fields print_def) (simp add: example_world_eq)

end
